theory Spec2Isabelle
  imports Complex_Main "HOL-Library.Product_Lexorder" "HOL-Library.Multiset"
begin

section \<open>The API service layer (apiService.js)\<close>

subsection \<open>Errors and the response interceptor\<close>

text \<open>
  A JavaScript exception is a value. The service layer throws \<open>new Error(message)\<close>;
  reading a property of an absent response body raises a \<open>TypeError\<close>.
\<close>

datatype js_error = Error string | TypeError

text \<open>
  The body of an error response: the two fields the interceptor reads, each of which may
  be absent and is a string when present.
\<close>

record response_data =
  message :: "string option"
  detail :: "string option"

text \<open>
  What axios rejects with: \<open>error.response\<close> (status and body, when the server
  answered), \<open>error.request\<close> (whether a request was made) and \<open>error.message\<close>.
\<close>

record axios_error =
  response :: "(nat \<times> response_data option) option"
  request :: bool
  err_message :: string

text \<open>A status code as the template literal prints it: its decimal digits.\<close>

definition digit_char :: "nat \<Rightarrow> char" where
  "digit_char d = char_of (of_char CHR ''0'' + d)"

fun string_of_nat :: "nat \<Rightarrow> string" where
  "string_of_nat n =
     (if 10 \<le> n then string_of_nat (n div 10) @ [digit_char (n mod 10)] else [digit_char n])"

declare string_of_nat.simps [simp del]

text \<open>Truthiness of a string that may be absent: the empty string is falsy.\<close>

definition truthy :: "'a list option \<Rightarrow> bool" where
  "truthy v = (case v of None \<Rightarrow> False | Some s \<Rightarrow> s \<noteq> [])"

text \<open>
  The rejection handler of \<open>api.interceptors.response\<close>: every failure of a call is
  rethrown as an \<open>Error\<close> whose message depends on where the failure happened.
\<close>

definition response_interceptor_error :: "axios_error \<Rightarrow> js_error" where
  "response_interceptor_error error =
     (case response error of
        Some (status, body) \<Rightarrow>
          (case body of
             None \<Rightarrow> TypeError
           | Some d \<Rightarrow>
               if truthy (message d) then Error (the (message d))
               else if truthy (detail d) then Error (the (detail d))
               else Error (''Server error: '' @ string_of_nat status))
      | None \<Rightarrow>
          if request error then Error ''Network error: Unable to connect to server''
          else if err_message error \<noteq> [] then Error (err_message error)
          else Error ''Unknown error occurred'')"

text \<open>
  One call through the axios instance: the transport either rejects with an
  \<open>axios_error\<close> or resolves with the response, of which the callers keep
  \<open>response.data\<close>.
\<close>

definition api_call :: "(axios_error + 'a) \<Rightarrow> (js_error + 'a)" where
  "api_call r = (case r of Inl error \<Rightarrow> Inl (response_interceptor_error error) | Inr d \<Rightarrow> Inr d)"

subsection \<open>The retry wrapper\<close>

text \<open>
  How an \<open>async\<close> function ends: it resolves with a value, it resolves with
  \<open>undefined\<close> (the loop of \<open>retryRequest\<close> falls through when
  \<open>maxRetries < 1\<close>), or it rejects.
\<close>

datatype ('e, 'a) outcome = Returned 'a | Undefined | Threw 'e

text \<open>
  The effects of the wrapper that a caller can observe: how many times the request
  function ran, and the delays (in milliseconds) it slept, in order.
\<close>

record retry_trace =
  calls :: nat
  sleeps :: "nat list"

text \<open>
  The \<open>for\<close> loop of \<open>retryRequest\<close>. The request function is effectful, so it is
  given as the result of its \<open>attempt\<close>-th invocation. The loop variable counts from 1,
  and the delay is a whole number of milliseconds.
\<close>

function retry_loop ::
  "(nat \<Rightarrow> 'e + 'a) \<Rightarrow> nat \<Rightarrow> nat \<Rightarrow> nat \<Rightarrow> retry_trace \<Rightarrow> ('e, 'a) outcome \<times> retry_trace"
where
  "retry_loop requestFn maxRetries attempt delay tr =
     (if attempt \<le> maxRetries then
        (case requestFn attempt of
           Inr v \<Rightarrow> (Returned v, tr\<lparr>calls := calls tr + 1\<rparr>)
         | Inl error \<Rightarrow>
             if attempt = maxRetries then (Threw error, tr\<lparr>calls := calls tr + 1\<rparr>)
             else retry_loop requestFn maxRetries (attempt + 1) (delay * 2)
                    (tr\<lparr>calls := calls tr + 1, sleeps := sleeps tr @ [delay]\<rparr>))
      else (Undefined, tr))"
  by pat_completeness auto
termination
  by (relation "measure (\<lambda>(requestFn, maxRetries, attempt, delay, tr). maxRetries + 1 - attempt)") auto

declare retry_loop.simps [simp del]

definition retryRequest ::
  "(nat \<Rightarrow> 'e + 'a) \<Rightarrow> nat \<Rightarrow> nat \<Rightarrow> ('e, 'a) outcome \<times> retry_trace"
where
  "retryRequest requestFn maxRetries delay =
     retry_loop requestFn maxRetries 1 delay \<lparr>calls = 0, sleeps = []\<rparr>"

subsection \<open>Requests\<close>

text \<open>
  A JavaScript string that a caller passes is the list of its Unicode code points. The
  string literals of the source are ASCII; \<open>lit\<close> gives their code points.
\<close>

type_synonym jstring = "nat list"

definition lit :: "string \<Rightarrow> jstring" where
  "lit s = map of_char s"

text \<open>
  \<open>String.prototype.toUpperCase\<close> replaces every code point by its uppercase mapping in
  the Unicode Character Database, which may be several code points (sharp s becomes SS).
  The mapping is the host's table and is the parameter \<open>upper\<close>.
\<close>

definition toUpperCase :: "(nat \<Rightarrow> jstring) \<Rightarrow> jstring \<Rightarrow> jstring" where
  "toUpperCase upper s = concat (map upper s)"

text \<open>
  What the Unicode table says on ASCII: the letters \<open>a\<close> to \<open>z\<close> (97 to 122) map to
  \<open>A\<close> to \<open>Z\<close>, every other ASCII code point maps to itself.
\<close>

definition ascii_upper :: "nat \<Rightarrow> nat" where
  "ascii_upper c = (if 97 \<le> c \<and> c \<le> 122 then c - 32 else c)"

definition ascii_table_ok :: "(nat \<Rightarrow> jstring) \<Rightarrow> bool" where
  "ascii_table_ok upper = (\<forall>c. c < 128 \<longrightarrow> upper c = [ascii_upper c])"

definition is_ascii :: "jstring \<Rightarrow> bool" where
  "is_ascii s = (\<forall>c \<in> set s. c < 128)"

text \<open>The values the service layer puts in a request body or in query parameters.\<close>

datatype json = JStr jstring | JNum rat

datatype http_method = GET | POST

text \<open>
  A request as handed to the axios instance: the method, the path, and the body (of a
  POST) or the query parameters (of a GET) as the list of properties in the order written.
\<close>

record http_request =
  http_method :: http_method
  url :: jstring
  payload :: "(string \<times> json) list"

text \<open>
  A default parameter value \<open>(x = d)\<close> applies when the argument is omitted
  (\<open>undefined\<close>), which is \<open>None\<close> here.
\<close>

definition default_param :: "'a \<Rightarrow> 'a option \<Rightarrow> 'a" where
  "default_param d arg = (case arg of None \<Rightarrow> d | Some v \<Rightarrow> v)"

text \<open>The request each service function builds inside its request function.\<close>

definition fetchRecommendations_request ::
  "(nat \<Rightarrow> jstring) \<Rightarrow> jstring option \<Rightarrow> rat option \<Rightarrow> http_request"
where
  "fetchRecommendations_request upper symbol strikesRange =
     \<lparr>http_method = POST, url = lit ''/api/recommendations'',
      payload = [(''symbol'', JStr (toUpperCase upper (default_param (lit ''NIFTY'') symbol))),
                 (''strikes_range'', JNum (default_param 6 strikesRange))]\<rparr>"

definition fetchQuickRecommendations_request :: "(nat \<Rightarrow> jstring) \<Rightarrow> jstring option \<Rightarrow> http_request" where
  "fetchQuickRecommendations_request upper symbol =
     \<lparr>http_method = GET,
      url = lit ''/api/recommendations/'' @ toUpperCase upper (default_param (lit ''NIFTY'') symbol),
      payload = []\<rparr>"

text \<open>
  \<open>fromDate\<close> and \<open>toDate\<close> default to \<open>null\<close> (\<open>None\<close>); a parameter is added
  only for a truthy value.
\<close>

definition fetchChartData_request ::
  "(nat \<Rightarrow> jstring) \<Rightarrow> jstring option \<Rightarrow> jstring option \<Rightarrow> jstring option \<Rightarrow> jstring option
     \<Rightarrow> http_request"
where
  "fetchChartData_request upper symbol interval fromDate toDate =
     \<lparr>http_method = GET, url = lit ''/api/chart-data'',
      payload =
        [(''symbol'', JStr (toUpperCase upper (default_param (lit ''NIFTY'') symbol))),
         (''interval'', JStr (default_param (lit ''ONE_MINUTE'') interval))]
        @ (if truthy fromDate then [(''from_date'', JStr (the fromDate))] else [])
        @ (if truthy toDate then [(''to_date'', JStr (the toDate))] else [])\<rparr>"

text \<open>
  The service functions. \<open>send attempt req\<close> is what the transport answers to the
  \<open>attempt\<close>-th call of the request function, made with the request \<open>req\<close>: a
  rejection or \<open>response.data\<close>. Each function runs under \<open>retryRequest\<close> with its
  default arguments, 3 attempts and a first delay of 1000 ms.
\<close>

definition fetchRecommendations ::
  "(nat \<Rightarrow> jstring) \<Rightarrow> (nat \<Rightarrow> http_request \<Rightarrow> axios_error + 'a) \<Rightarrow> jstring option \<Rightarrow> rat option
     \<Rightarrow> (js_error, 'a) outcome \<times> retry_trace"
where
  "fetchRecommendations upper send symbol strikesRange =
     retryRequest
       (\<lambda>attempt. api_call (send attempt (fetchRecommendations_request upper symbol strikesRange)))
       3 1000"

definition fetchQuickRecommendations ::
  "(nat \<Rightarrow> jstring) \<Rightarrow> (nat \<Rightarrow> http_request \<Rightarrow> axios_error + 'a) \<Rightarrow> jstring option
     \<Rightarrow> (js_error, 'a) outcome \<times> retry_trace"
where
  "fetchQuickRecommendations upper send symbol =
     retryRequest
       (\<lambda>attempt. api_call (send attempt (fetchQuickRecommendations_request upper symbol)))
       3 1000"

definition fetchChartData ::
  "(nat \<Rightarrow> jstring) \<Rightarrow> (nat \<Rightarrow> http_request \<Rightarrow> axios_error + 'a) \<Rightarrow> jstring option
     \<Rightarrow> jstring option \<Rightarrow> jstring option \<Rightarrow> jstring option \<Rightarrow> (js_error, 'a) outcome \<times> retry_trace"
where
  "fetchChartData upper send symbol interval fromDate toDate =
     retryRequest
       (\<lambda>attempt. api_call (send attempt (fetchChartData_request upper symbol interval fromDate toDate)))
       3 1000"

section \<open>Spread recommendations\<close>

text \<open>
  A recommendation as the frontend receives it: the JSON object whose properties the
  table and the cards read. Numbers are finite (JSON has no other), so each is a rational.
\<close>

record SpreadRecommendation =
  spread_type :: string
  symbol :: string
  expiry :: string
  buy_strike :: rat
  buy_premium :: rat
  buy_delta :: rat
  sell_strike :: rat
  sell_premium :: rat
  sell_delta :: rat
  delta_difference :: rat
  net_premium :: rat
  max_profit :: rat
  max_loss :: rat
  breakeven :: rat
  profit_per_100_up :: rat
  profit_per_100_down :: rat
  risk_reward_ratio :: rat
  probability_profit :: rat
  total_volume :: rat

section \<open>The recommendations table (RecommendationsTable.jsx)\<close>

text \<open>The columns that carry a \<open>SortHeader\<close>, and the two sort directions.\<close>

datatype sort_field =
  F_type | F_buy_strike | F_delta_difference | F_risk_reward_ratio | F_profit_per_100_up
  | F_total_volume

datatype sort_direction = Asc | Desc

text \<open>\<open>handleSort\<close>: a click on the current column flips the direction, a click on
  another column selects it, descending.\<close>

definition handleSort :: "sort_field \<times> sort_direction \<Rightarrow> sort_field \<Rightarrow> sort_field \<times> sort_direction" where
  "handleSort st field =
     (if fst st = field then (fst st, if snd st = Asc then Desc else Asc) else (field, Desc))"

text \<open>The state \<open>useState\<close> starts with.\<close>

definition initial_sort :: "sort_field \<times> sort_direction" where
  "initial_sort = (F_risk_reward_ratio, Desc)"

text \<open>\<open>a[sortField]\<close> for the numeric columns; the \<open>type\<close> column holds a string.\<close>

definition numeric_field :: "sort_field \<Rightarrow> SpreadRecommendation \<Rightarrow> rat option" where
  "numeric_field f r =
     (case f of
        F_type \<Rightarrow> None
      | F_buy_strike \<Rightarrow> Some (buy_strike r)
      | F_delta_difference \<Rightarrow> Some (delta_difference r)
      | F_risk_reward_ratio \<Rightarrow> Some (risk_reward_ratio r)
      | F_profit_per_100_up \<Rightarrow> Some (profit_per_100_up r)
      | F_total_volume \<Rightarrow> Some (total_volume r))"

text \<open>
  The comparator handed to \<open>sort\<close>. Two numbers compare by their difference, whose sign
  is exact for finite doubles; anything else compares by \<open>localeCompare\<close>, which depends
  on the host's collation and is a parameter.
\<close>

definition compareRecommendations ::
  "(string \<Rightarrow> string \<Rightarrow> int) \<Rightarrow> sort_field \<Rightarrow> sort_direction
     \<Rightarrow> SpreadRecommendation \<Rightarrow> SpreadRecommendation \<Rightarrow> rat"
where
  "compareRecommendations localeCompare sortField sortDirection a b =
     (let multiplier = (if sortDirection = Asc then 1 else - 1) in
      case (numeric_field sortField a, numeric_field sortField b) of
        (Some aVal, Some bVal) \<Rightarrow> (aVal - bVal) * multiplier
      | _ \<Rightarrow> of_int (localeCompare (spread_type a) (spread_type b)) * multiplier)"

text \<open>
  \<open>Array.prototype.sort\<close> with a comparator. The language specifies a stable sort: an
  element goes before the first element it does not compare greater than, and elements
  that compare equal keep their order.
\<close>

fun js_insert :: "('a \<Rightarrow> 'a \<Rightarrow> rat) \<Rightarrow> 'a \<Rightarrow> 'a list \<Rightarrow> 'a list" where
  "js_insert cmp x [] = [x]"
| "js_insert cmp x (y # ys) = (if cmp x y \<le> 0 then x # y # ys else y # js_insert cmp x ys)"

definition js_sort :: "('a \<Rightarrow> 'a \<Rightarrow> rat) \<Rightarrow> 'a list \<Rightarrow> 'a list" where
  "js_sort cmp xs = foldr (js_insert cmp) xs []"

text \<open>\<open>sortedRecommendations\<close>, as a function of the list's elements.\<close>

definition sortedRecommendations ::
  "(string \<Rightarrow> string \<Rightarrow> int) \<Rightarrow> sort_field \<Rightarrow> sort_direction
     \<Rightarrow> SpreadRecommendation list \<Rightarrow> SpreadRecommendation list"
where
  "sortedRecommendations localeCompare sortField sortDirection recommendations =
     js_sort (compareRecommendations localeCompare sortField sortDirection) recommendations"

text \<open>
  What the component renders. The sorted copy is computed first, and spreading a
  \<open>recommendations\<close> prop that is \<open>null\<close> (\<open>None\<close>) raises a \<open>TypeError\<close>.
\<close>

datatype table_view = LoadingView | EmptyView | RowsView "SpreadRecommendation list"

definition RecommendationsTable ::
  "(string \<Rightarrow> string \<Rightarrow> int) \<Rightarrow> sort_field \<times> sort_direction
     \<Rightarrow> SpreadRecommendation list option \<Rightarrow> bool \<Rightarrow> js_error + table_view"
where
  "RecommendationsTable localeCompare st recommendations loading =
     (case recommendations of
        None \<Rightarrow> Inl TypeError
      | Some recs \<Rightarrow>
          (let sorted = sortedRecommendations localeCompare (fst st) (snd st) recs in
           if loading then Inr LoadingView
           else if length recs = 0 then Inr EmptyView
           else Inr (RowsView sorted)))"

subsection \<open>The same computation on the heap\<close>

text \<open>
  Arrays and objects are shared by reference. The heap maps the address of an array to
  the addresses of its elements and the address of an object to its value;
  \<open>next_addr\<close> is the next address an allocation returns.
\<close>

type_synonym addr = nat

record heap =
  arrays :: "addr \<rightharpoonup> addr list"
  objs :: "addr \<Rightarrow> SpreadRecommendation"
  next_addr :: addr

text \<open>\<open>[...a]\<close>: a new array with the elements of \<open>a\<close>; a \<open>TypeError\<close> when \<open>a\<close> is
  no array.\<close>

definition spread_copy :: "heap \<Rightarrow> addr \<Rightarrow> js_error + (addr \<times> heap)" where
  "spread_copy h a =
     (case arrays h a of
        None \<Rightarrow> Inl TypeError
      | Some xs \<Rightarrow>
          Inr (next_addr h,
               h\<lparr>arrays := (arrays h)(next_addr h \<mapsto> xs), next_addr := next_addr h + 1\<rparr>))"

text \<open>\<open>a.sort(cmp)\<close>: sorts the array at \<open>a\<close> in place; the comparator reads the objects.\<close>

definition array_sort ::
  "(SpreadRecommendation \<Rightarrow> SpreadRecommendation \<Rightarrow> rat) \<Rightarrow> heap \<Rightarrow> addr \<Rightarrow> js_error + heap"
where
  "array_sort cmp h a =
     (case arrays h a of
        None \<Rightarrow> Inl TypeError
      | Some xs \<Rightarrow>
          Inr (h\<lparr>arrays := (arrays h)(a \<mapsto> js_sort (\<lambda>p q. cmp (objs h p) (objs h q)) xs)\<rparr>))"

definition sortedRecommendations_heap ::
  "(string \<Rightarrow> string \<Rightarrow> int) \<Rightarrow> sort_field \<Rightarrow> sort_direction \<Rightarrow> heap \<Rightarrow> addr
     \<Rightarrow> js_error + (addr \<times> heap)"
where
  "sortedRecommendations_heap localeCompare sortField sortDirection h recommendations =
     (case spread_copy h recommendations of
        Inl e \<Rightarrow> Inl e
      | Inr (a, h1) \<Rightarrow>
          (case array_sort (compareRecommendations localeCompare sortField sortDirection) h1 a of
             Inl e \<Rightarrow> Inl e
           | Inr h2 \<Rightarrow> Inr (a, h2)))"

text \<open>An allocation is fresh when every array lies below \<open>next_addr\<close>.\<close>

definition heap_ok :: "heap \<Rightarrow> bool" where
  "heap_ok h = (\<forall>a. arrays h a \<noteq> None \<longrightarrow> a < next_addr h)"

section \<open>The application state (App.jsx)\<close>

text \<open>The part of the component's state that fetching recommendations can reach.\<close>

record app_state =
  recommendations :: "SpreadRecommendation list"
  error :: "string option"
  loading :: bool

text \<open>
  What \<open>fetch\<close> and \<open>response.json()\<close> give: the fetch rejects (no connection), or
  a response arrives with its status, whose body parses to the data or fails to parse.
\<close>

datatype 'a fetch_result = Rejected string | Responded nat "string + 'a"

definition response_ok :: "nat \<Rightarrow> bool" where
  "response_ok status = (200 \<le> status \<and> status \<le> 299)"

text \<open>
  \<open>fetchRecommendations\<close> of the component: the data of a successful response is
  stored; every failure is caught, logged, and stored as the empty list.
\<close>

definition App_fetchRecommendations ::
  "app_state \<Rightarrow> SpreadRecommendation list fetch_result \<Rightarrow> app_state"
where
  "App_fetchRecommendations st res =
     (case res of
        Rejected err \<Rightarrow> st\<lparr>recommendations := []\<rparr>
      | Responded status body \<Rightarrow>
          if \<not> response_ok status then st\<lparr>recommendations := []\<rparr>
          else (case body of
                  Inl err \<Rightarrow> st\<lparr>recommendations := []\<rparr>
                | Inr recommendationsData \<Rightarrow> st\<lparr>recommendations := recommendationsData\<rparr>))"

section \<open>The spread analyzer\<close>

text \<open>
  The analysis engine runs on the server and its code is not part of the sources at
  hand; the definitions of this section follow the written specification of the Spread
  Analyzer (section 4.4), step by step, in exact rational arithmetic.
\<close>

datatype option_type = CALL | PUT

record OptionContract =
  oc_symbol :: string
  oc_expiry :: string
  strike :: rat
  option_type :: option_type
  premium :: rat
  delta :: rat
  gamma :: rat
  theta :: rat
  vega :: rat
  implied_volatility :: rat
  volume :: nat

text \<open>Modelled from the spec: the rounding of step 1 (the analyzer's \<open>round\<close> is missing);
  an exact half goes to the even neighbour, one consistent rule as the specification asks.\<close>

definition round_half_even :: "rat \<Rightarrow> int" where
  "round_half_even x =
     (let f = \<lfloor>x\<rfloor>; d = x - of_int f in
      if d < 1 / 2 then f else if 1 / 2 < d then f + 1 else if even f then f else f + 1)"

text \<open>Modelled from the spec: ATM identification (step 1 of the missing analyzer),
  \<open>atm = round(current_price / strike_interval) * strike_interval\<close>.\<close>

definition atm_strike :: "rat \<Rightarrow> rat \<Rightarrow> rat" where
  "atm_strike current_price strike_interval =
     of_int (round_half_even (current_price / strike_interval)) * strike_interval"

text \<open>Modelled from the spec: the strike window (step 2 of the missing analyzer). From the
  contracts of one option type in ascending strike order it keeps the \<open>n\<close> strikes next
  below the ATM strike, the ATM strike, and the \<open>n\<close> next above, or what there is.\<close>

definition strike_window :: "nat \<Rightarrow> rat \<Rightarrow> OptionContract list \<Rightarrow> OptionContract list" where
  "strike_window n atm cs =
     (let below = filter (\<lambda>c. strike c < atm) cs;
          level = filter (\<lambda>c. strike c = atm) cs;
          above = filter (\<lambda>c. atm < strike c) cs
      in drop (length below - n) below @ level @ take n above)"

text \<open>Modelled from the spec: the delta difference of a pair of legs (step 3 of the missing
  analyzer), a positive magnitude for calls and puts alike.\<close>

definition leg_delta_difference :: "OptionContract \<Rightarrow> OptionContract \<Rightarrow> rat" where
  "leg_delta_difference buy sell = \<bar>delta buy - delta sell\<bar>"

text \<open>Modelled from the spec: the acceptance band of step 3 of the missing analyzer, the
  closed interval from 0.15 to 0.26.\<close>

definition in_delta_band :: "rat \<Rightarrow> bool" where
  "in_delta_band d = (15 / 100 \<le> d \<and> d \<le> 26 / 100)"

text \<open>Modelled from the spec: spread construction and risk metrics (steps 4 and 5 of the
  missing analyzer). The probability estimate has no stated formula and is a parameter.\<close>

definition build_spread ::
  "(rat \<Rightarrow> rat) \<Rightarrow> rat \<Rightarrow> option_type \<Rightarrow> OptionContract \<Rightarrow> OptionContract \<Rightarrow> SpreadRecommendation"
where
  "build_spread prob lot_size ty buy sell =
     (let net = premium buy - premium sell;
          dd = leg_delta_difference buy sell;
          up = (delta buy - delta sell) * 100 * lot_size
      in \<lparr>spread_type = (if ty = CALL then ''Bull Call Spread'' else ''Bear Put Spread''),
          symbol = oc_symbol buy,
          expiry = oc_expiry buy,
          buy_strike = strike buy, buy_premium = premium buy, buy_delta = delta buy,
          sell_strike = strike sell, sell_premium = premium sell, sell_delta = delta sell,
          delta_difference = dd,
          net_premium = net,
          max_profit = (\<bar>strike sell - strike buy\<bar> - net) * lot_size,
          max_loss = net * lot_size,
          breakeven = (if ty = CALL then strike buy + net else strike buy - net),
          profit_per_100_up = up,
          profit_per_100_down = - up,
          risk_reward_ratio = ((\<bar>strike sell - strike buy\<bar> - net) * lot_size) / (net * lot_size),
          probability_profit = prob dd,
          total_volume = of_nat (volume buy + volume sell)\<rparr>)"

text \<open>Modelled from the spec: which pairs become recommendations (steps 3 to 5 of the
  missing analyzer): the delta difference lies in the band, the spread is a debit, and the
  maximal loss is positive.\<close>

definition accept_pair :: "rat \<Rightarrow> OptionContract \<Rightarrow> OptionContract \<Rightarrow> bool" where
  "accept_pair lot_size buy sell =
     (in_delta_band (leg_delta_difference buy sell)
      \<and> 0 < premium buy - premium sell
      \<and> 0 < (premium buy - premium sell) * lot_size)"

text \<open>Modelled from the spec: pairing (step 3 of the missing analyzer). The buy leg is the
  ATM contract; the sell legs are the contracts of the window that are out of the money:
  a higher strike for calls, a lower strike for puts.\<close>

definition candidate_pairs ::
  "nat \<Rightarrow> rat \<Rightarrow> option_type \<Rightarrow> OptionContract list \<Rightarrow> (OptionContract \<times> OptionContract) list"
where
  "candidate_pairs n atm ty contracts =
     (let w = strike_window n atm (filter (\<lambda>c. option_type c = ty) contracts)
      in concat (map (\<lambda>buy.
                   map (\<lambda>sell. (buy, sell))
                     (filter (\<lambda>sell. if ty = CALL then strike buy < strike sell
                                     else strike sell < strike buy) w))
                 (filter (\<lambda>c. strike c = atm) w)))"

text \<open>Modelled from the spec: the recommendations of one option type (steps 3 to 5 of
  the missing analyzer): one spread for each accepted pair.\<close>

definition spreads_of_type ::
  "(rat \<Rightarrow> rat) \<Rightarrow> nat \<Rightarrow> rat \<Rightarrow> rat \<Rightarrow> option_type \<Rightarrow> OptionContract list
     \<Rightarrow> SpreadRecommendation list"
where
  "spreads_of_type prob n atm lot_size ty contracts =
     map (\<lambda>(buy, sell). build_spread prob lot_size ty buy sell)
       (filter (\<lambda>(buy, sell). accept_pair lot_size buy sell) (candidate_pairs n atm ty contracts))"

text \<open>Modelled from the spec: the ranking key (step 6 of the missing analyzer), a composite
  key: risk-reward ratio descending, then combined volume descending, then the distance of
  the delta difference from 0.20 ascending.\<close>

definition ranking_key :: "SpreadRecommendation \<Rightarrow> rat \<times> rat \<times> rat" where
  "ranking_key r = (- risk_reward_ratio r, - total_volume r, \<bar>delta_difference r - 20 / 100\<bar>)"

text \<open>Modelled from the spec: ranking (step 6 of the missing analyzer), a stable sort by
  the composite key.\<close>

definition rank_spreads :: "SpreadRecommendation list \<Rightarrow> SpreadRecommendation list" where
  "rank_spreads rs = sort_key ranking_key rs"

text \<open>Modelled from the spec: \<open>analyze\<close> of the missing analyzer, with the configuration it
  takes from its environment as arguments: the probability heuristic, the window size
  and the limit on the number of recommendations returned.\<close>

definition analyze ::
  "(rat \<Rightarrow> rat) \<Rightarrow> nat \<Rightarrow> nat \<Rightarrow> OptionContract list \<Rightarrow> rat \<Rightarrow> rat \<Rightarrow> rat
     \<Rightarrow> SpreadRecommendation list"
where
  "analyze prob strikes_range limit contracts current_price lot_size strike_interval =
     (let atm = atm_strike current_price strike_interval
      in take limit
           (rank_spreads
              (spreads_of_type prob strikes_range atm lot_size CALL contracts
               @ spreads_of_type prob strikes_range atm lot_size PUT contracts)))"

text \<open>
  The scenario of the specification: NIFTY at 24000 with strikes every 50 points, an ATM
  call of delta 0.62, and calls at 24100 (delta 0.50) and 24300 (delta 0.40).
\<close>

definition scenario_call :: "rat \<Rightarrow> rat \<Rightarrow> rat \<Rightarrow> OptionContract" where
  "scenario_call k p d =
     \<lparr>oc_symbol = ''NIFTY'', oc_expiry = ''2026-11-26'', strike = k, option_type = CALL,
      premium = p, delta = d, gamma = 0, theta = 0, vega = 0, implied_volatility = 15,
      volume = 1000\<rparr>"

definition scenario_chain :: "OptionContract list" where
  "scenario_chain =
     [scenario_call 24000 200 (62 / 100), scenario_call 24100 150 (50 / 100),
      scenario_call 24300 90 (40 / 100)]"

text \<open>Two recommendations that differ in their combined volume only.\<close>

definition tie_spread :: "rat \<Rightarrow> SpreadRecommendation" where
  "tie_spread v =
     \<lparr>spread_type = ''Bull Call Spread'', symbol = ''NIFTY'', expiry = ''2026-11-26'',
      buy_strike = 24000, buy_premium = 200, buy_delta = 62 / 100,
      sell_strike = 24300, sell_premium = 100, sell_delta = 40 / 100,
      delta_difference = 22 / 100, net_premium = 100, max_profit = 15000, max_loss = 7500,
      breakeven = 24100, profit_per_100_up = 1650, profit_per_100_down = - 1650,
      risk_reward_ratio = 2, probability_profit = 50, total_volume = v\<rparr>"

text \<open>A heap with one array of two recommendations, the better ratio second.\<close>

definition two_spreads_heap :: heap where
  "two_spreads_heap =
     \<lparr>arrays = [0 \<mapsto> [10, 11]],
      objs = (\<lambda>a. if a = 10 then tie_spread 1000 else tie_spread 5000\<lparr>risk_reward_ratio := 3\<rparr>),
      next_addr = 1\<rparr>"

text \<open>A state of the application that shows one recommendation.\<close>

definition loaded_state :: app_state where
  "loaded_state = \<lparr>recommendations = [tie_spread 1000], error = None, loading = True\<rparr>"

text \<open>The rejection of a call that the server answered with status 429.\<close>

definition rate_limited :: axios_error where
  "rate_limited =
     \<lparr>response = Some (429, Some \<lparr>message = None, detail = Some ''Rate limit exceeded''\<rparr>),
      request = True, err_message = ''Request failed with status code 429''\<rparr>"

text \<open>Two transports: one that never connects, and one whose server finds no spread.\<close>

definition offline :: "nat \<Rightarrow> http_request \<Rightarrow> axios_error + SpreadRecommendation list" where
  "offline attempt req = Inl \<lparr>response = None, request = True, err_message = ''Network Error''\<rparr>"

definition no_opportunities :: "nat \<Rightarrow> http_request \<Rightarrow> axios_error + SpreadRecommendation list" where
  "no_opportunities attempt req = Inr []"

text \<open>
  An excerpt of the Unicode uppercase mapping: ASCII, e with acute accent (233 to 201)
  and sharp s (223 to SS).
\<close>

definition sample_upper :: "nat \<Rightarrow> jstring" where
  "sample_upper c = (if c = 223 then [83, 83] else if c = 233 then [201] else [ascii_upper c])"

text \<open>A transport that answers every call with the request it was called with.\<close>

definition echo :: "nat \<Rightarrow> http_request \<Rightarrow> axios_error + http_request" where
  "echo attempt req = Inr req"


text \<open>
  A chain whose three spreads have the same risk-reward ratio: the spread to 24300 has the
  highest combined volume, and of the other two the spread to 24250 has its delta
  difference nearer to 0.20.
\<close>

definition tie_chain :: "OptionContract list" where
  "tie_chain =
     [scenario_call 24000 200 (62 / 100),
      scenario_call 24200 120 (45 / 100),
      scenario_call 24250 100 (42 / 100),
      (scenario_call 24300 80 (40 / 100))\<lparr>volume := 5000\<rparr>]"

section \<open>Properties of the retry wrapper\<close>

lemma retry_loop_all_fail:
  assumes "attempt \<le> maxRetries" "1 \<le> attempt"
    and "\<And>k. attempt \<le> k \<Longrightarrow> k \<le> maxRetries \<Longrightarrow> requestFn k = Inl (e k)"
  shows "retry_loop requestFn maxRetries attempt delay tr =
           (Threw (e maxRetries),
            \<lparr>calls = calls tr + (maxRetries + 1 - attempt),
             sleeps = sleeps tr @ map (\<lambda>i. delay * 2 ^ i) [0..<maxRetries - attempt]\<rparr>)"
  using assms
proof (induction requestFn maxRetries attempt delay tr rule: retry_loop.induct)
  case (1 requestFn maxRetries attempt delay tr)
  have here: "requestFn attempt = Inl (e attempt)"
    using "1.prems" by simp
  show ?case
  proof (cases "attempt = maxRetries")
    case True
    then show ?thesis
      using here by (subst retry_loop.simps) simp
  next
    case False
    then have lt: "attempt < maxRetries" using "1.prems" by simp
    have step: "retry_loop requestFn maxRetries (attempt + 1) (delay * 2)
                  (tr\<lparr>calls := calls tr + 1, sleeps := sleeps tr @ [delay]\<rparr>) =
                (Threw (e maxRetries),
                 \<lparr>calls = calls tr + 1 + (maxRetries + 1 - (attempt + 1)),
                  sleeps = (sleeps tr @ [delay]) @
                    map (\<lambda>i. delay * 2 * 2 ^ i) [0..<maxRetries - (attempt + 1)]\<rparr>)"
      using "1.IH" [OF _ here False] lt "1.prems"(3) by simp
    have idx: "[0..<maxRetries - attempt] = 0 # map Suc [0..<maxRetries - (attempt + 1)]"
      using lt by (metis Suc_diff_Suc add.commute diff_diff_left map_Suc_upt plus_1_eq_Suc upt_conv_Cons zero_less_diff)
    have "map (\<lambda>i. delay * 2 ^ i) [0..<maxRetries - attempt] =
            delay # map (\<lambda>i. delay * 2 * 2 ^ i) [0..<maxRetries - (attempt + 1)]"
      unfolding idx by (simp add: comp_def)
    then show ?thesis
      using step here lt by (subst retry_loop.simps) simp
  qed
qed


lemma retry_loop_success_here:
  assumes "attempt \<le> maxRetries" "requestFn attempt = Inr v"
  shows "retry_loop requestFn maxRetries attempt delay tr = (Returned v, tr\<lparr>calls := calls tr + 1\<rparr>)"
  using assms by (subst retry_loop.simps) simp

lemma retry_loop_fail_here:
  assumes "attempt < maxRetries" "requestFn attempt = Inl e"
  shows "retry_loop requestFn maxRetries attempt delay tr =
           retry_loop requestFn maxRetries (attempt + 1) (delay * 2)
             (tr\<lparr>calls := calls tr + 1, sleeps := sleeps tr @ [delay]\<rparr>)"
  using assms by (subst retry_loop.simps) simp

text \<open>
  C4. A request function that fails on its first two attempts and succeeds on the third
  makes the retry wrapper return the successful result (after three calls and two sleeps,
  of the first delay and of its double): no error reaches the caller. The wrapper retries
  whatever the error is, so this holds for rate-limit errors in particular.
\<close>

theorem retryRequest_third_attempt_succeeds:
  assumes "3 \<le> maxRetries"
    and "requestFn 1 = Inl e1" and "requestFn 2 = Inl e2" and "requestFn 3 = Inr v"
  shows "retryRequest requestFn maxRetries delay =
           (Returned v, \<lparr>calls = 3, sleeps = [delay, delay * 2]\<rparr>)"
proof -
  let ?t0 = "\<lparr>calls = 0, sleeps = []\<rparr>"
  let ?t1 = "\<lparr>calls = 1, sleeps = [delay]\<rparr>"
  let ?t2 = "\<lparr>calls = 2, sleeps = [delay, delay * 2]\<rparr>"
  have "retry_loop requestFn maxRetries 1 delay ?t0 =
          retry_loop requestFn maxRetries 2 (delay * 2) ?t1"
    using retry_loop_fail_here [of 1 maxRetries requestFn e1 delay ?t0] assms(1,2)
    by (simp add: numeral_2_eq_2)
  also have "\<dots> = retry_loop requestFn maxRetries 3 (delay * 2 * 2) ?t2"
    using retry_loop_fail_here [of 2 maxRetries requestFn e2 "delay * 2" ?t1] assms(1,3)
    by (simp add: numeral_2_eq_2 numeral_3_eq_3)
  also have "\<dots> = (Returned v, \<lparr>calls = 3, sleeps = [delay, delay * 2]\<rparr>)"
    using retry_loop_success_here [of 3 maxRetries requestFn v "delay * 2 * 2" ?t2] assms(1,4)
    by (simp add: numeral_2_eq_2 numeral_3_eq_3)
  finally show ?thesis
    by (simp add: retryRequest_def)
qed

theorem retryRequest_third_attempt_succeeds_witness:
  "retryRequest (\<lambda>k. api_call (if k < 3 then Inl rate_limited else Inr (42 :: nat))) 3 1000 =
     (Returned 42, \<lparr>calls = 3, sleeps = [1000, 2000]\<rparr>)"
proof -
  have limited: "api_call (Inl rate_limited :: axios_error + nat) = Inl (Error ''Rate limit exceeded'')"
    by (simp add: api_call_def response_interceptor_error_def rate_limited_def truthy_def)
  show ?thesis
    using retryRequest_third_attempt_succeeds
      [of 3 "\<lambda>k. api_call (if k < 3 then Inl rate_limited else Inr (42 :: nat))"
          "Error ''Rate limit exceeded''" "Error ''Rate limit exceeded''" 42 1000]
      limited
    by (simp add: api_call_def)
qed

text \<open>
  C5. When the transport fails on every attempt without a response although the request
  was made (a network error), the wrapper calls the request function exactly
  \<open>maxRetries\<close> times, sleeps between attempts for a delay that doubles each time, and
  then throws the network error of the response interceptor to its caller. The loop is a
  total function: it never retries indefinitely.
\<close>

theorem retryRequest_network_failure_bounded:
  assumes "1 \<le> maxRetries"
    and "\<forall>k. 1 \<le> k \<and> k \<le> maxRetries \<longrightarrow>
           (\<exists>err. send k = Inl err \<and> response err = None \<and> request err)"
  shows "retryRequest (\<lambda>k. api_call (send k)) maxRetries delay =
           (Threw (Error ''Network error: Unable to connect to server''),
            \<lparr>calls = maxRetries, sleeps = map (\<lambda>i. delay * 2 ^ i) [0..<maxRetries - 1]\<rparr>)"
proof -
  have fails: "api_call (send k) = Inl (Error ''Network error: Unable to connect to server'')"
    if "1 \<le> k" "k \<le> maxRetries" for k
  proof -
    from assms(2) that have "\<exists>err. send k = Inl err \<and> response err = None \<and> request err"
      by simp
    then obtain err where "send k = Inl err" "response err = None" "request err"
      by blast
    then show ?thesis
      by (simp add: api_call_def response_interceptor_error_def)
  qed
  show ?thesis
    unfolding retryRequest_def
    using retry_loop_all_fail
      [of 1 maxRetries "\<lambda>k. api_call (send k)"
          "\<lambda>_. Error ''Network error: Unable to connect to server''" delay
          "\<lparr>calls = 0, sleeps = []\<rparr>"]
      assms(1) fails
    by simp
qed

theorem retryRequest_network_failure_bounded_witness:
  "retryRequest
     (\<lambda>k. api_call (Inl \<lparr>response = None, request = True, err_message = ''timeout''\<rparr> :: axios_error + nat))
     3 1000 =
   (Threw (Error ''Network error: Unable to connect to server''),
    \<lparr>calls = 3, sleeps = [1000, 2000]\<rparr>)"
proof -
  have "map (\<lambda>i. (1000::nat) * 2 ^ i) [0..<3 - 1] = [1000, 2000]"
    by code_simp
  then show ?thesis
    using retryRequest_network_failure_bounded
      [of 3 "\<lambda>k. Inl \<lparr>response = None, request = True, err_message = ''timeout''\<rparr> :: axios_error + nat" 1000]
    by simp
qed

section \<open>Properties of the spread analyzer\<close>

lemma round_half_even_close: "\<bar>of_int (round_half_even x) - x\<bar> \<le> 1 / 2"
proof -
  have "of_int \<lfloor>x\<rfloor> \<le> x" "x < of_int \<lfloor>x\<rfloor> + 1"
    by linarith+
  then show ?thesis
    by (auto simp: round_half_even_def Let_def)
qed

lemma round_half_even_nearest:
  "\<bar>of_int (round_half_even x) - x\<bar> \<le> \<bar>of_int m - x\<bar>"
proof (cases "m = round_half_even x")
  case True
  then show ?thesis by simp
next
  case False
  then have "1 \<le> \<bar>m - round_half_even x\<bar>" by linarith
  then have "(1::rat) \<le> \<bar>of_int m - of_int (round_half_even x)\<bar>"
    by (metis of_int_1 of_int_abs of_int_diff of_int_le_iff)
  then show ?thesis
    using round_half_even_close [of x] by linarith
qed

text \<open>
  C7. For every price and every positive strike interval, the ATM strike is
  \<open>round(current_price / strike_interval) * strike_interval\<close>; it is an integer multiple
  of the interval, and no integer multiple of the interval is nearer to the price.
\<close>

theorem atm_strike_nearest_multiple:
  assumes "0 < strike_interval"
  shows "atm_strike current_price strike_interval =
           of_int (round_half_even (current_price / strike_interval)) * strike_interval
         \<and> (\<exists>k::int. atm_strike current_price strike_interval = of_int k * strike_interval)
         \<and> (\<forall>m::int. \<bar>atm_strike current_price strike_interval - current_price\<bar>
                       \<le> \<bar>of_int m * strike_interval - current_price\<bar>)"
proof -
  let ?x = "current_price / strike_interval"
  let ?r = "round_half_even ?x"
  have scale: "\<bar>of_int k * strike_interval - current_price\<bar> = strike_interval * \<bar>of_int k - ?x\<bar>"
    for k :: int
  proof -
    have "of_int k * strike_interval - current_price = strike_interval * (of_int k - ?x)"
      using assms by (simp add: field_simps)
    then show ?thesis
      using assms by (simp add: abs_mult)
  qed
  have near: "\<bar>of_int ?r * strike_interval - current_price\<bar>
                \<le> \<bar>of_int m * strike_interval - current_price\<bar>" for m :: int
    unfolding scale using round_half_even_nearest [of ?x m] assms by simp
  show ?thesis
    using near by (auto simp: atm_strike_def)
qed

theorem atm_strike_nearest_multiple_witness:
  "(0::rat) < 50 \<and> atm_strike 24010 50 = 24000
   \<and> \<bar>atm_strike 24010 50 - 24010\<bar> \<le> \<bar>of_int 481 * 50 - 24010\<bar>
   \<and> atm_strike 24025 50 = 24000 \<and> atm_strike 24075 50 = 24100"
proof -
  have "atm_strike 24010 50 = 24000" "atm_strike 24025 50 = 24000" "atm_strike 24075 50 = 24100"
    by code_simp+
  then show ?thesis
    using atm_strike_nearest_multiple [of 50 24010] by simp
qed

lemma spreads_of_type_band:
  assumes "r \<in> set (spreads_of_type prob n atm lot_size ty contracts)"
  shows "in_delta_band (delta_difference r)"
proof -
  from assms obtain buy sell where
    r: "r = build_spread prob lot_size ty buy sell" and acc: "accept_pair lot_size buy sell"
    by (auto simp: spreads_of_type_def)
  have "delta_difference r = leg_delta_difference buy sell"
    by (simp add: r build_spread_def Let_def)
  then show ?thesis
    using acc by (simp add: accept_pair_def)
qed

lemma set_analyze_subset:
  "set (analyze prob n limit contracts current_price lot_size strike_interval)
     \<subseteq> set (spreads_of_type prob n (atm_strike current_price strike_interval) lot_size CALL contracts)
       \<union> set (spreads_of_type prob n (atm_strike current_price strike_interval) lot_size PUT contracts)"
proof -
  have "set (take limit (rank_spreads xs)) \<subseteq> set xs" for xs
    using set_take_subset [of limit "rank_spreads xs"] by (simp add: rank_spreads_def)
  from this [of "spreads_of_type prob n (atm_strike current_price strike_interval) lot_size CALL contracts
                 @ spreads_of_type prob n (atm_strike current_price strike_interval) lot_size PUT contracts"]
  show ?thesis
    by (simp add: analyze_def Let_def)
qed

lemma rank_spreads_sorted:
  "sorted (map ranking_key (rank_spreads rs)) \<and> mset (rank_spreads rs) = mset rs"
  by (simp add: rank_spreads_def)

text \<open>
  C1. Every recommendation an analysis run returns has its \<open>delta_difference\<close> in the
  closed interval from 0.15 to 0.26, and the spread built from a pair of legs whose delta
  difference lies outside the interval is not among the recommendations returned.
\<close>

theorem analyze_delta_band:
  "(\<forall>r \<in> set (analyze prob n limit contracts current_price lot_size strike_interval).
      15 / 100 \<le> delta_difference r \<and> delta_difference r \<le> 26 / 100)
   \<and> (\<forall>ty buy sell.
        \<not> in_delta_band (leg_delta_difference buy sell) \<longrightarrow>
        build_spread prob lot_size ty buy sell
          \<notin> set (analyze prob n limit contracts current_price lot_size strike_interval))"
proof -
  let ?out = "analyze prob n limit contracts current_price lot_size strike_interval"
  have band: "in_delta_band (delta_difference r)" if "r \<in> set ?out" for r
    using that set_analyze_subset [of prob n limit contracts current_price lot_size strike_interval]
      spreads_of_type_band by blast
  have built: "delta_difference (build_spread prob lot_size ty buy sell) = leg_delta_difference buy sell"
    for ty buy sell
    by (simp add: build_spread_def Let_def)
  show ?thesis
  proof (intro conjI ballI allI impI)
    fix r assume "r \<in> set ?out"
    then show "15 / 100 \<le> delta_difference r" "delta_difference r \<le> 26 / 100"
      using band [of r] by (simp_all add: in_delta_band_def)
  next
    fix ty buy sell
    assume out: "\<not> in_delta_band (leg_delta_difference buy sell)"
    show "build_spread prob lot_size ty buy sell \<notin> set ?out"
    proof
      assume "build_spread prob lot_size ty buy sell \<in> set ?out"
      then have "in_delta_band (delta_difference (build_spread prob lot_size ty buy sell))"
        by (rule band)
      then show False
        using out by (simp add: built)
    qed
  qed
qed

lemma scenario_atm: "atm_strike 24000 50 = 24000" by code_simp

lemma scenario_run:
  "analyze (\<lambda>d. d) 6 10 scenario_chain 24000 75 50 =
     [build_spread (\<lambda>d. d) 75 CALL (scenario_call 24000 200 (62 / 100)) (scenario_call 24300 90 (40 / 100))]"
  unfolding analyze_def scenario_atm Let_def
  by (simp add: rank_spreads_def spreads_of_type_def candidate_pairs_def strike_window_def
      scenario_chain_def scenario_call_def accept_pair_def in_delta_band_def
      leg_delta_difference_def Let_def)

theorem analyze_delta_band_witness:
  "build_spread (\<lambda>d. d) 75 CALL (scenario_call 24000 200 (62 / 100)) (scenario_call 24300 90 (40 / 100))
     \<in> set (analyze (\<lambda>d. d) 6 10 scenario_chain 24000 75 50)
   \<and> 15 / 100 \<le> delta_difference
        (build_spread (\<lambda>d. d) 75 CALL (scenario_call 24000 200 (62 / 100)) (scenario_call 24300 90 (40 / 100)))
   \<and> delta_difference
        (build_spread (\<lambda>d. d) 75 CALL (scenario_call 24000 200 (62 / 100)) (scenario_call 24300 90 (40 / 100)))
      \<le> 26 / 100
   \<and> \<not> in_delta_band (leg_delta_difference (scenario_call 24000 200 (62 / 100)) (scenario_call 24100 150 (50 / 100)))
   \<and> build_spread (\<lambda>d. d) 75 CALL (scenario_call 24000 200 (62 / 100)) (scenario_call 24100 150 (50 / 100))
     \<notin> set (analyze (\<lambda>d. d) 6 10 scenario_chain 24000 75 50)"
proof -
  let ?buy = "scenario_call 24000 200 (62 / 100)"
  let ?out = "analyze (\<lambda>d. d) 6 10 scenario_chain 24000 75 50"
  have mem: "build_spread (\<lambda>d. d) 75 CALL ?buy (scenario_call 24300 90 (40 / 100)) \<in> set ?out"
    by (simp add: scenario_run)
  have dd: "15 / 100 \<le> delta_difference (build_spread (\<lambda>d. d) 75 CALL ?buy (scenario_call 24300 90 (40 / 100)))
            \<and> delta_difference (build_spread (\<lambda>d. d) 75 CALL ?buy (scenario_call 24300 90 (40 / 100))) \<le> 26 / 100"
    using analyze_delta_band [of "\<lambda>d. d" 6 10 scenario_chain 24000 75 50] mem by blast
  have outside: "\<not> in_delta_band (leg_delta_difference ?buy (scenario_call 24100 150 (50 / 100)))"
    by (simp add: in_delta_band_def leg_delta_difference_def scenario_call_def)
  have absent: "build_spread (\<lambda>d. d) 75 CALL ?buy (scenario_call 24100 150 (50 / 100)) \<notin> set ?out"
    using analyze_delta_band [of "\<lambda>d. d" 6 10 scenario_chain 24000 75 50] outside by blast
  show ?thesis
    using mem dd outside absent by simp
qed

section \<open>Properties of the ranking and of the recommendations table\<close>

lemma js_insert_insort_key:
  assumes "\<And>a b. (cmp a b \<le> 0) = (f a \<le> f b)"
  shows "js_insert cmp x xs = insort_key f x xs"
  by (induction xs) (simp_all add: assms)

lemma js_sort_sort_key:
  assumes "\<And>a b. (cmp a b \<le> 0) = (f a \<le> f b)"
  shows "js_sort cmp xs = sort_key f xs"
proof -
  have "js_insert cmp = insort_key f"
    using js_insert_insort_key [OF assms] by (intro ext)
  then show ?thesis
    by (simp add: js_sort_def sort_key_def)
qed

lemma compare_default:
  "(compareRecommendations lc F_risk_reward_ratio Desc a b \<le> 0)
     = (- risk_reward_ratio a \<le> - risk_reward_ratio b)"
  by (simp add: compareRecommendations_def numeric_field_def)

lemma sortedRecommendations_default:
  "sortedRecommendations lc F_risk_reward_ratio Desc recs = sort_key (\<lambda>r. - risk_reward_ratio r) recs"
  unfolding sortedRecommendations_def
  by (rule js_sort_sort_key) (rule compare_default)

lemma ranked_sorted_by_ratio:
  assumes "sorted (map ranking_key recs)"
  shows "sorted (map (\<lambda>r. - risk_reward_ratio r) recs)"
proof -
  have "sorted_wrt (\<lambda>a b. ranking_key a \<le> ranking_key b) recs"
    using assms by (simp add: sorted_map)
  then have "sorted_wrt (\<lambda>a b. - risk_reward_ratio a \<le> - risk_reward_ratio b) recs"
    by (rule sorted_wrt_mono_rel [rotated]) (auto simp: ranking_key_def less_eq_prod_def)
  then show ?thesis
    by (simp add: sorted_map)
qed

lemma ranked_list_kept:
  assumes "sorted (map ranking_key recs)"
  shows "sortedRecommendations lc F_risk_reward_ratio Desc recs = recs"
  using ranked_sorted_by_ratio [OF assms]
  by (simp add: sortedRecommendations_default sort_key_id_if_sorted)

lemma analyze_sorted:
  "sorted (map ranking_key (analyze prob n limit contracts current_price lot_size strike_interval))"
proof -
  have "sorted (map ranking_key (rank_spreads xs))" for xs
    by (simp add: rank_spreads_def)
  then have "sorted (take limit (map ranking_key (rank_spreads xs)))" for xs
    by (rule sorted_wrt_take)
  then show ?thesis
    by (simp add: analyze_def Let_def take_map)
qed

lemma ranking_key_le:
  assumes "ranking_key a \<le> ranking_key b"
  shows "risk_reward_ratio b \<le> risk_reward_ratio a
         \<and> (risk_reward_ratio a = risk_reward_ratio b \<longrightarrow> total_volume b \<le> total_volume a)
         \<and> (risk_reward_ratio a = risk_reward_ratio b \<and> total_volume a = total_volume b \<longrightarrow>
              \<bar>delta_difference a - 20 / 100\<bar> \<le> \<bar>delta_difference b - 20 / 100\<bar>)"
  using assms by (auto simp: ranking_key_def less_eq_prod_def)

text \<open>
  C2. The recommendations of an analysis run are in the order of the composite key, which
  is total: of two recommendations the earlier has the higher or the same risk-reward
  ratio; with the same ratio, the higher or the same combined volume; with the same ratio
  and volume, a delta difference at least as near to 0.20. The ranking is stable: it
  rearranges its input and keeps recommendations of equal key in their order. The table
  in its initial state shows the list in this order.
\<close>

theorem analyze_ranking_order:
  "(let out = analyze prob n limit contracts current_price lot_size strike_interval in
      sorted (map ranking_key out)
      \<and> (\<forall>i j. i < j \<and> j < length out \<longrightarrow>
            risk_reward_ratio (out ! j) \<le> risk_reward_ratio (out ! i)
            \<and> (risk_reward_ratio (out ! i) = risk_reward_ratio (out ! j) \<longrightarrow>
                 total_volume (out ! j) \<le> total_volume (out ! i))
            \<and> (risk_reward_ratio (out ! i) = risk_reward_ratio (out ! j)
                 \<and> total_volume (out ! i) = total_volume (out ! j) \<longrightarrow>
                 \<bar>delta_difference (out ! i) - 20 / 100\<bar> \<le> \<bar>delta_difference (out ! j) - 20 / 100\<bar>))
      \<and> sortedRecommendations localeCompare (fst initial_sort) (snd initial_sort) out = out)
   \<and> mset (rank_spreads rs) = mset rs
   \<and> (\<forall>k. filter (\<lambda>r. ranking_key r = k) (rank_spreads rs) = filter (\<lambda>r. ranking_key r = k) rs)"
proof -
  let ?out = "analyze prob n limit contracts current_price lot_size strike_interval"
  have srt: "sorted (map ranking_key ?out)"
    by (rule analyze_sorted)
  have pair: "ranking_key (?out ! i) \<le> ranking_key (?out ! j)" if "i < j" "j < length ?out" for i j
    using srt that sorted_iff_nth_mono_less [of "map ranking_key ?out"] by simp
  have shown: "sortedRecommendations localeCompare (fst initial_sort) (snd initial_sort) ?out = ?out"
    using ranked_list_kept [OF srt] by (simp add: initial_sort_def)
  have stable: "filter (\<lambda>r. ranking_key r = k) (rank_spreads rs) = filter (\<lambda>r. ranking_key r = k) rs"
    for k
    unfolding rank_spreads_def by (rule sort_key_stable)
  have perm: "mset (rank_spreads rs) = mset rs"
    by (simp add: rank_spreads_def)
  show ?thesis
    unfolding Let_def
    using srt shown stable perm ranking_key_le [OF pair] by blast
qed

lemma tie_run:
  "analyze (\<lambda>d. d) 6 10 tie_chain 24000 75 50 =
     [build_spread (\<lambda>d. d) 75 CALL (scenario_call 24000 200 (62 / 100))
        ((scenario_call 24300 80 (40 / 100))\<lparr>volume := 5000\<rparr>),
      build_spread (\<lambda>d. d) 75 CALL (scenario_call 24000 200 (62 / 100))
        (scenario_call 24250 100 (42 / 100)),
      build_spread (\<lambda>d. d) 75 CALL (scenario_call 24000 200 (62 / 100))
        (scenario_call 24200 120 (45 / 100))]"
  unfolding analyze_def scenario_atm Let_def
  by (simp add: rank_spreads_def spreads_of_type_def candidate_pairs_def strike_window_def
      tie_chain_def scenario_call_def accept_pair_def in_delta_band_def
      leg_delta_difference_def Let_def ranking_key_def build_spread_def less_eq_prod_def)


theorem analyze_ranking_order_witness:
  "analyze (\<lambda>d. d) 6 10 tie_chain 24000 75 50 =
     [build_spread (\<lambda>d. d) 75 CALL (scenario_call 24000 200 (62 / 100))
        ((scenario_call 24300 80 (40 / 100))\<lparr>volume := 5000\<rparr>),
      build_spread (\<lambda>d. d) 75 CALL (scenario_call 24000 200 (62 / 100))
        (scenario_call 24250 100 (42 / 100)),
      build_spread (\<lambda>d. d) 75 CALL (scenario_call 24000 200 (62 / 100))
        (scenario_call 24200 120 (45 / 100))]
   \<and> map risk_reward_ratio (analyze (\<lambda>d. d) 6 10 tie_chain 24000 75 50) = [3 / 2, 3 / 2, 3 / 2]
   \<and> map total_volume (analyze (\<lambda>d. d) 6 10 tie_chain 24000 75 50) = [6000, 2000, 2000]
   \<and> map delta_difference (analyze (\<lambda>d. d) 6 10 tie_chain 24000 75 50) = [22 / 100, 20 / 100, 17 / 100]
   \<and> total_volume (analyze (\<lambda>d. d) 6 10 tie_chain 24000 75 50 ! 1)
       \<le> total_volume (analyze (\<lambda>d. d) 6 10 tie_chain 24000 75 50 ! 0)
   \<and> \<bar>delta_difference (analyze (\<lambda>d. d) 6 10 tie_chain 24000 75 50 ! 1) - 20 / 100\<bar>
       \<le> \<bar>delta_difference (analyze (\<lambda>d. d) 6 10 tie_chain 24000 75 50 ! 2) - 20 / 100\<bar>
   \<and> sortedRecommendations (\<lambda>a b. 0) (fst initial_sort) (snd initial_sort)
        (analyze (\<lambda>d. d) 6 10 tie_chain 24000 75 50)
      = analyze (\<lambda>d. d) 6 10 tie_chain 24000 75 50"
proof -
  let ?out = "analyze (\<lambda>d. d) 6 10 tie_chain 24000 75 50"
  have len: "length ?out = 3"
    by (simp add: tie_run)
  have rr: "map risk_reward_ratio ?out = [3 / 2, 3 / 2, 3 / 2]"
    by (simp add: tie_run build_spread_def scenario_call_def Let_def)
  have vol: "map total_volume ?out = [6000, 2000, 2000]"
    by (simp add: tie_run build_spread_def scenario_call_def Let_def)
  have dd: "map delta_difference ?out = [22 / 100, 20 / 100, 17 / 100]"
    by (simp add: tie_run build_spread_def scenario_call_def leg_delta_difference_def Let_def)
  have rr_eq: "risk_reward_ratio (?out ! 0) = risk_reward_ratio (?out ! 1)"
    "risk_reward_ratio (?out ! 1) = risk_reward_ratio (?out ! 2)"
    "total_volume (?out ! 1) = total_volume (?out ! 2)"
    by (simp_all add: tie_run build_spread_def scenario_call_def Let_def)
  note all = analyze_ranking_order
      [where prob = "\<lambda>d. d" and n = 6 and limit = 10 and contracts = tie_chain
         and current_price = 24000 and lot_size = 75 and strike_interval = 50
         and localeCompare = "\<lambda>a b. 0" and rs = "[]", unfolded Let_def]
  note order = all [THEN conjunct1, THEN conjunct2, THEN conjunct1]
  note shown = all [THEN conjunct1, THEN conjunct2, THEN conjunct2]
  have first: "total_volume (?out ! 1) \<le> total_volume (?out ! 0)"
    using order [rule_format, of 0 1] len rr_eq(1) by simp
  have second: "\<bar>delta_difference (?out ! 1) - 20 / 100\<bar> \<le> \<bar>delta_difference (?out ! 2) - 20 / 100\<bar>"
    using order [rule_format, of 1 2] len rr_eq(2,3) by simp
  show ?thesis
    using tie_run rr vol dd first second shown by (simp only: simp_thms)
qed


lemma js_insert_map:
  "map f (js_insert (\<lambda>p q. cmp (f p) (f q)) x xs) = js_insert cmp (f x) (map f xs)"
  by (induction xs) simp_all

lemma js_sort_map:
  "map f (js_sort (\<lambda>p q. cmp (f p) (f q)) xs) = js_sort cmp (map f xs)"
  by (induction xs) (simp_all add: js_sort_def js_insert_map)

text \<open>
  C9. Sorting for display never changes a recommendation or the list it was given: on a
  heap whose allocations are fresh, \<open>sortedRecommendations\<close> returns a new array that
  holds the sorted order, while the array passed in keeps its elements in their order,
  every other array is as before, and every object is unchanged.
\<close>

theorem sortedRecommendations_heap_frame:
  assumes "heap_ok h" and "arrays h recs_addr = Some xs"
  shows "\<exists>a h' ys.
           sortedRecommendations_heap localeCompare sortField sortDirection h recs_addr = Inr (a, h')
           \<and> a \<noteq> recs_addr
           \<and> arrays h' recs_addr = Some xs
           \<and> objs h' = objs h
           \<and> (\<forall>b. b \<noteq> a \<longrightarrow> arrays h' b = arrays h b)
           \<and> arrays h' a = Some ys
           \<and> map (objs h') ys
               = sortedRecommendations localeCompare sortField sortDirection (map (objs h) xs)"
proof -
  let ?cmp = "compareRecommendations localeCompare sortField sortDirection"
  let ?a = "next_addr h"
  let ?h1 = "h\<lparr>arrays := (arrays h)(?a \<mapsto> xs), next_addr := ?a + 1\<rparr>"
  let ?ys = "js_sort (\<lambda>p q. ?cmp (objs h p) (objs h q)) xs"
  let ?h2 = "?h1\<lparr>arrays := (arrays ?h1)(?a \<mapsto> ?ys)\<rparr>"
  have fresh: "?a \<noteq> recs_addr"
    using assms by (auto simp: heap_ok_def)
  have copy: "spread_copy h recs_addr = Inr (?a, ?h1)"
    using assms(2) by (simp add: spread_copy_def)
  have sort: "array_sort ?cmp ?h1 ?a = Inr ?h2"
    by (simp add: array_sort_def)
  have run: "sortedRecommendations_heap localeCompare sortField sortDirection h recs_addr
               = Inr (?a, ?h2)"
    using assms(2)
    by (simp add: sortedRecommendations_heap_def spread_copy_def array_sort_def)
  have sorted: "map (objs ?h2) ?ys
                  = sortedRecommendations localeCompare sortField sortDirection (map (objs h) xs)"
    by (simp add: sortedRecommendations_def js_sort_map)
  have "arrays ?h2 recs_addr = Some xs" "objs ?h2 = objs h"
    "\<forall>b. b \<noteq> ?a \<longrightarrow> arrays ?h2 b = arrays h b" "arrays ?h2 ?a = Some ?ys"
    using fresh assms(2) by simp_all
  with run fresh sorted show ?thesis
    by blast
qed

lemma two_spreads_sorted:
  "sortedRecommendations (\<lambda>a b. 0) F_risk_reward_ratio Desc (map (objs two_spreads_heap) [10, 11])
     = [tie_spread 5000\<lparr>risk_reward_ratio := 3\<rparr>, tie_spread 1000]"
  by (simp add: sortedRecommendations_def js_sort_def compareRecommendations_def
      numeric_field_def two_spreads_heap_def tie_spread_def)

theorem sortedRecommendations_heap_frame_witness:
  "heap_ok two_spreads_heap \<and> arrays two_spreads_heap 0 = Some [10, 11]
   \<and> (\<exists>a h' ys.
         sortedRecommendations_heap (\<lambda>a b. 0) F_risk_reward_ratio Desc two_spreads_heap 0 = Inr (a, h')
         \<and> a \<noteq> 0
         \<and> arrays h' 0 = Some [10, 11]
         \<and> objs h' = objs two_spreads_heap
         \<and> (\<forall>b. b \<noteq> a \<longrightarrow> arrays h' b = arrays two_spreads_heap b)
         \<and> arrays h' a = Some ys
         \<and> map (objs h') ys = [tie_spread 5000\<lparr>risk_reward_ratio := 3\<rparr>, tie_spread 1000])"
proof -
  have ok: "heap_ok two_spreads_heap"
    by (simp add: heap_ok_def two_spreads_heap_def)
  have arr: "arrays two_spreads_heap 0 = Some [10, 11]"
    by (simp add: two_spreads_heap_def)
  show ?thesis
    using sortedRecommendations_heap_frame [OF ok arr, of "\<lambda>a b. 0" F_risk_reward_ratio Desc] ok arr
    unfolding two_spreads_sorted by simp
qed


section \<open>Properties of the application and of the service functions\<close>

lemma retryRequest_first_attempt:
  assumes "1 \<le> maxRetries" "requestFn 1 = Inr v"
  shows "retryRequest requestFn maxRetries delay = (Returned v, \<lparr>calls = 1, sleeps = []\<rparr>)"
  using retry_loop_success_here [of 1 maxRetries requestFn v delay "\<lparr>calls = 0, sleeps = []\<rparr>"] assms
  by (simp add: retryRequest_def)

lemma retryRequest_all_fail:
  assumes "1 \<le> maxRetries" "\<And>k. 1 \<le> k \<Longrightarrow> k \<le> maxRetries \<Longrightarrow> requestFn k = Inl (e k)"
  shows "fst (retryRequest requestFn maxRetries delay) = Threw (e maxRetries)"
  using retry_loop_all_fail [of 1 maxRetries requestFn e delay "\<lparr>calls = 0, sleeps = []\<rparr>"] assms
  by (simp add: retryRequest_def)

text \<open>
  C3 (as the code has it). An empty list of recommendations is a valid outcome and no
  error: the service function returns it, the table renders its empty panel, and the
  application stores it. The service layer keeps a failed fetch apart from it, throwing
  the error after three attempts. The application's own \<open>fetchRecommendations\<close> does
  not: every failure (a rejected fetch, a status outside 200 to 299, a body that does not
  parse) is stored as the empty list, and the error state is left as it was.
\<close>

theorem empty_list_and_failed_fetch:
  "(send 1 (fetchRecommendations_request upper symb strikesRange) = Inr [] \<longrightarrow>
      fst (fetchRecommendations upper send symb strikesRange) = Returned [])
   \<and> ((\<forall>k. 1 \<le> k \<and> k \<le> 3 \<longrightarrow>
          send k (fetchRecommendations_request upper symb strikesRange) = Inl (err k)) \<longrightarrow>
        fst (fetchRecommendations upper send symb strikesRange)
          = Threw (response_interceptor_error (err 3)))
   \<and> RecommendationsTable localeCompare srt (Some []) False = Inr EmptyView
   \<and> App_fetchRecommendations st (Responded 200 (Inr [])) = st\<lparr>recommendations := []\<rparr>
   \<and> App_fetchRecommendations st (Rejected msg) = st\<lparr>recommendations := []\<rparr>
   \<and> (\<not> response_ok status \<longrightarrow>
        App_fetchRecommendations st (Responded status body) = st\<lparr>recommendations := []\<rparr>)
   \<and> App_fetchRecommendations st (Responded status (Inl msg)) = st\<lparr>recommendations := []\<rparr>
   \<and> error (App_fetchRecommendations st res) = error st"
proof -
  let ?req = "fetchRecommendations_request upper symb strikesRange"
  have ok: "fst (fetchRecommendations upper send symb strikesRange) = Returned []"
    if "send 1 ?req = Inr []"
    using that retryRequest_first_attempt [of 3 "\<lambda>attempt. api_call (send attempt ?req)" "[]" 1000]
    by (simp add: fetchRecommendations_def api_call_def)
  have bad: "fst (fetchRecommendations upper send symb strikesRange) = Threw (response_interceptor_error (err 3))"
    if "\<forall>k. 1 \<le> k \<and> k \<le> 3 \<longrightarrow> send k ?req = Inl (err k)"
    using that retryRequest_all_fail
      [of 3 "\<lambda>attempt. api_call (send attempt ?req)" "\<lambda>k. response_interceptor_error (err k)" 1000]
    by (simp add: fetchRecommendations_def api_call_def)
  have view: "RecommendationsTable localeCompare srt (Some []) False = Inr EmptyView"
    by (simp add: RecommendationsTable_def)
  have app: "App_fetchRecommendations st (Responded 200 (Inr [])) = st\<lparr>recommendations := []\<rparr>"
    "App_fetchRecommendations st (Rejected msg) = st\<lparr>recommendations := []\<rparr>"
    "\<not> response_ok status \<longrightarrow>
       App_fetchRecommendations st (Responded status body) = st\<lparr>recommendations := []\<rparr>"
    "App_fetchRecommendations st (Responded status (Inl msg)) = st\<lparr>recommendations := []\<rparr>"
    by (simp_all add: App_fetchRecommendations_def response_ok_def)
  have err: "error (App_fetchRecommendations st res) = error st"
    by (simp add: App_fetchRecommendations_def split: fetch_result.split sum.split)
  show ?thesis
    using ok bad view app err by blast
qed

text \<open>
  C3 as stated fails: after a rejected fetch the application's state is the state after
  a successful response with no recommendations; the failure is the empty list.
\<close>

theorem App_failed_fetch_is_empty_list:
  "App_fetchRecommendations loaded_state (Rejected ''Failed to fetch'')
     = App_fetchRecommendations loaded_state (Responded 200 (Inr []))
   \<and> recommendations (App_fetchRecommendations loaded_state (Rejected ''Failed to fetch'')) = []
   \<and> error (App_fetchRecommendations loaded_state (Rejected ''Failed to fetch'')) = None"
  by (simp add: App_fetchRecommendations_def response_ok_def loaded_state_def)

theorem empty_list_and_failed_fetch_witness:
  "fst (fetchRecommendations sample_upper no_opportunities (Some (lit ''nifty'')) None) = Returned []
   \<and> fst (fetchRecommendations sample_upper offline (Some (lit ''nifty'')) None)
       = Threw (Error ''Network error: Unable to connect to server'')
   \<and> App_fetchRecommendations loaded_state (Responded 503 (Inr [tie_spread 5000]))
       = loaded_state\<lparr>recommendations := []\<rparr>"
proof -
  let ?down = "\<lambda>k::nat. \<lparr>response = None, request = True, err_message = ''Network Error''\<rparr>"
  have a: "no_opportunities 1 (fetchRecommendations_request sample_upper (Some (lit ''nifty'')) None) = Inr []"
    by (simp add: no_opportunities_def)
  have b: "\<forall>k. 1 \<le> k \<and> k \<le> 3 \<longrightarrow>
             offline k (fetchRecommendations_request sample_upper (Some (lit ''nifty'')) None)
               = Inl (?down k)"
    by (simp add: offline_def)
  have c: "\<not> response_ok 503"
    by (simp add: response_ok_def)
  have d: "response_interceptor_error (?down 3) = Error ''Network error: Unable to connect to server''"
    by (simp add: response_interceptor_error_def)
  show ?thesis
    using empty_list_and_failed_fetch
      [where send = no_opportunities and upper = sample_upper and symb = "Some (lit ''nifty'')"
         and strikesRange = None and err = ?down and st = loaded_state and status = 503
         and body = "Inr [tie_spread 5000]"]
      empty_list_and_failed_fetch
      [where send = offline and upper = sample_upper and symb = "Some (lit ''nifty'')"
         and strikesRange = None and err = ?down and st = loaded_state and status = 503
         and body = "Inr [tie_spread 5000]"]
      a b c d
    by simp
qed




lemma toUpperCase_ascii:
  assumes "ascii_table_ok upper" and "is_ascii s"
  shows "toUpperCase upper s = map ascii_upper s"
  using assms(2)
proof (induction s)
  case Nil
  then show ?case by (simp add: toUpperCase_def)
next
  case (Cons c s)
  then have "c < 128" "is_ascii s"
    by (simp_all add: is_ascii_def)
  then show ?case
    using Cons.IH assms(1) by (simp add: toUpperCase_def ascii_table_ok_def)
qed

text \<open>
  C10. Whatever the symbol passed, the service functions for recommendations, for quick
  recommendations and for chart data call the transport with a request that carries the
  symbol in upper case: the uppercase mapping of each of its code points, in order, which
  on an ASCII symbol turns the letters \<open>a\<close> to \<open>z\<close> into \<open>A\<close> to \<open>Z\<close> and changes
  nothing else. Two symbols that differ in letter case only, such as \<open>nifty\<close> and
  \<open>NIFTY\<close>, therefore give the same request and the same outcome.
\<close>

theorem symbol_sent_uppercased:
  assumes "ascii_table_ok upper"
  shows "fetchRecommendations upper send (Some s) strikesRange =
           retryRequest
             (\<lambda>attempt. api_call (send attempt
                \<lparr>http_method = POST, url = lit ''/api/recommendations'',
                 payload = [(''symbol'', JStr (toUpperCase upper s)),
                            (''strikes_range'', JNum (default_param 6 strikesRange))]\<rparr>))
             3 1000
         \<and> fetchQuickRecommendations upper send (Some s) =
           retryRequest
             (\<lambda>attempt. api_call (send attempt
                \<lparr>http_method = GET, url = lit ''/api/recommendations/'' @ toUpperCase upper s,
                 payload = []\<rparr>))
             3 1000
         \<and> fetchChartData upper send (Some s) interval fromDate toDate =
           retryRequest
             (\<lambda>attempt. api_call (send attempt
                \<lparr>http_method = GET, url = lit ''/api/chart-data'',
                 payload =
                   [(''symbol'', JStr (toUpperCase upper s)),
                    (''interval'', JStr (default_param (lit ''ONE_MINUTE'') interval))]
                   @ (if truthy fromDate then [(''from_date'', JStr (the fromDate))] else [])
                   @ (if truthy toDate then [(''to_date'', JStr (the toDate))] else [])\<rparr>))
             3 1000
         \<and> fst (fetchQuickRecommendations upper echo (Some s)) =
           Returned \<lparr>http_method = GET, url = lit ''/api/recommendations/'' @ toUpperCase upper s,
                     payload = []\<rparr>
         \<and> toUpperCase upper s = concat (map upper s)
         \<and> (is_ascii s \<longrightarrow> toUpperCase upper s = map ascii_upper s)
         \<and> (is_ascii s \<and> is_ascii t \<and> map ascii_upper s = map ascii_upper t \<longrightarrow>
              fetchRecommendations upper send (Some s) strikesRange
                = fetchRecommendations upper send (Some t) strikesRange
              \<and> fetchQuickRecommendations upper send (Some s)
                = fetchQuickRecommendations upper send (Some t)
              \<and> fetchChartData upper send (Some s) interval fromDate toDate
                = fetchChartData upper send (Some t) interval fromDate toDate)"
proof -
  have rec: "fetchRecommendations upper send (Some s) strikesRange =
           retryRequest
             (\<lambda>attempt. api_call (send attempt
                \<lparr>http_method = POST, url = lit ''/api/recommendations'',
                 payload = [(''symbol'', JStr (toUpperCase upper s)),
                            (''strikes_range'', JNum (default_param 6 strikesRange))]\<rparr>))
             3 1000"
    by (simp add: fetchRecommendations_def fetchRecommendations_request_def default_param_def)
  have quick: "fetchQuickRecommendations upper send' (Some s) =
           retryRequest
             (\<lambda>attempt. api_call (send' attempt
                \<lparr>http_method = GET, url = lit ''/api/recommendations/'' @ toUpperCase upper s,
                 payload = []\<rparr>))
             3 1000" for send' :: "nat \<Rightarrow> http_request \<Rightarrow> axios_error + 'c"
    by (simp add: fetchQuickRecommendations_def fetchQuickRecommendations_request_def
        default_param_def)
  have chart: "fetchChartData upper send (Some s) interval fromDate toDate =
           retryRequest
             (\<lambda>attempt. api_call (send attempt
                \<lparr>http_method = GET, url = lit ''/api/chart-data'',
                 payload =
                   [(''symbol'', JStr (toUpperCase upper s)),
                    (''interval'', JStr (default_param (lit ''ONE_MINUTE'') interval))]
                   @ (if truthy fromDate then [(''from_date'', JStr (the fromDate))] else [])
                   @ (if truthy toDate then [(''to_date'', JStr (the toDate))] else [])\<rparr>))
             3 1000"
    by (simp add: fetchChartData_def fetchChartData_request_def default_param_def)
  have seen: "fst (fetchQuickRecommendations upper echo (Some s)) =
           Returned \<lparr>http_method = GET, url = lit ''/api/recommendations/'' @ toUpperCase upper s,
                     payload = []\<rparr>"
    unfolding quick
    by (subst retryRequest_first_attempt) (simp_all add: api_call_def echo_def)
  have same: "fetchRecommendations upper send (Some s) strikesRange
                = fetchRecommendations upper send (Some t) strikesRange
              \<and> fetchQuickRecommendations upper send (Some s)
                = fetchQuickRecommendations upper send (Some t)
              \<and> fetchChartData upper send (Some s) interval fromDate toDate
                = fetchChartData upper send (Some t) interval fromDate toDate"
    if "is_ascii s" "is_ascii t" "map ascii_upper s = map ascii_upper t"
  proof -
    have "toUpperCase upper s = toUpperCase upper t"
      using that toUpperCase_ascii [OF assms] by simp
    then show ?thesis
      by (simp add: fetchRecommendations_def fetchQuickRecommendations_def fetchChartData_def
          fetchRecommendations_request_def fetchQuickRecommendations_request_def
          fetchChartData_request_def default_param_def)
  qed
  show ?thesis
    using rec quick [of send] chart seen same toUpperCase_ascii [OF assms, of s]
    by (simp add: toUpperCase_def)
qed

lemma sample_upper_ok: "ascii_table_ok sample_upper"
  by (simp add: ascii_table_ok_def sample_upper_def)

theorem symbol_sent_uppercased_witness:
  "ascii_table_ok sample_upper
   \<and> is_ascii (lit ''nifty'') \<and> is_ascii (lit ''NIFTY'')
   \<and> map ascii_upper (lit ''nifty'') = map ascii_upper (lit ''NIFTY'')
   \<and> toUpperCase sample_upper (lit ''nifty'') = lit ''NIFTY''
   \<and> toUpperCase sample_upper (lit ''nifty'' @ [233]) = lit ''NIFTY'' @ [201]
   \<and> fst (fetchQuickRecommendations sample_upper echo (Some (lit ''nifty''))) =
       Returned \<lparr>http_method = GET, url = lit ''/api/recommendations/NIFTY'', payload = []\<rparr>
   \<and> fetchRecommendations sample_upper offline (Some (lit ''nifty'')) None
       = fetchRecommendations sample_upper offline (Some (lit ''NIFTY'')) None
   \<and> fetchQuickRecommendations sample_upper offline (Some (lit ''nifty''))
       = fetchQuickRecommendations sample_upper offline (Some (lit ''NIFTY''))
   \<and> fetchChartData sample_upper offline (Some (lit ''nifty'')) None None None
       = fetchChartData sample_upper offline (Some (lit ''NIFTY'')) None None None"
proof -
  have asc: "is_ascii (lit ''nifty'')" "is_ascii (lit ''NIFTY'')"
    by (simp_all add: is_ascii_def lit_def)
  have cased: "map ascii_upper (lit ''nifty'') = map ascii_upper (lit ''NIFTY'')"
    "map ascii_upper (lit ''nifty'') = lit ''NIFTY''"
    by (simp_all add: ascii_upper_def lit_def)
  have accent: "toUpperCase sample_upper (lit ''nifty'' @ [233]) = lit ''NIFTY'' @ [201]"
    by (simp add: toUpperCase_def sample_upper_def ascii_upper_def lit_def)
  have path: "lit ''/api/recommendations/'' @ lit ''NIFTY'' = lit ''/api/recommendations/NIFTY''"
    by (simp add: lit_def)
  note all = symbol_sent_uppercased
      [OF sample_upper_ok, where s = "lit ''nifty''" and t = "lit ''NIFTY''" and send = offline
         and strikesRange = None and interval = None and fromDate = None and toDate = None]
  note seen = all [THEN conjunct2, THEN conjunct2, THEN conjunct2, THEN conjunct1]
  note on_ascii = all [THEN conjunct2, THEN conjunct2, THEN conjunct2, THEN conjunct2,
      THEN conjunct2, THEN conjunct1]
  note same = all [THEN conjunct2, THEN conjunct2, THEN conjunct2, THEN conjunct2,
      THEN conjunct2, THEN conjunct2]
  have up: "toUpperCase sample_upper (lit ''nifty'') = lit ''NIFTY''"
    using on_ascii asc(1) cased(2) by simp
  have url: "fst (fetchQuickRecommendations sample_upper echo (Some (lit ''nifty''))) =
       Returned \<lparr>http_method = GET, url = lit ''/api/recommendations/NIFTY'', payload = []\<rparr>"
    using seen by (simp only: up path)
  have eq: "fetchRecommendations sample_upper offline (Some (lit ''nifty'')) None
       = fetchRecommendations sample_upper offline (Some (lit ''NIFTY'')) None
     \<and> fetchQuickRecommendations sample_upper offline (Some (lit ''nifty''))
       = fetchQuickRecommendations sample_upper offline (Some (lit ''NIFTY''))
     \<and> fetchChartData sample_upper offline (Some (lit ''nifty'')) None None None
       = fetchChartData sample_upper offline (Some (lit ''NIFTY'')) None None None"
    using same asc cased(1) by (simp only: simp_thms)
  show ?thesis
    using sample_upper_ok asc cased(1) up accent url eq by (simp only: simp_thms)
qed

end
